theory Spec2Isabelle
  imports Complex_Main "HOL-Library.Multiset"
begin

section \<open>JavaScript numbers\<close>

text \<open>
  A JavaScript \<^verbatim>\<open>number\<close> is a finite double, \<^verbatim>\<open>NaN\<close> or one of the two infinities.
  Finite doubles are carried as reals: the rounding and the overflow of an arithmetic
  result are not modelled, and the two zeros \<^verbatim>\<open>+0\<close> and \<^verbatim>\<open>-0\<close> are one value (they are
  \<^verbatim>\<open>===\<close>-equal, both falsy, and both print as \<^verbatim>\<open>0\<close>).
\<close>

datatype number = Fin real | NaN | PosInfinity | NegInfinity

fun isNaN :: "number \<Rightarrow> bool" where
  "isNaN NaN = True"
| "isNaN _ = False"

fun isFinite :: "number \<Rightarrow> bool" where
  "isFinite (Fin _) = True"
| "isFinite _ = False"

fun Math_abs :: "number \<Rightarrow> number" where
  "Math_abs (Fin x) = Fin \<bar>x\<bar>"
| "Math_abs NaN = NaN"
| "Math_abs PosInfinity = PosInfinity"
| "Math_abs NegInfinity = PosInfinity"

text \<open>The arithmetic operators, on all sixteen combinations of operands.\<close>

fun js_minus :: "number \<Rightarrow> number \<Rightarrow> number" where
  "js_minus NaN _ = NaN"
| "js_minus _ NaN = NaN"
| "js_minus (Fin x) (Fin y) = Fin (x - y)"
| "js_minus (Fin _) PosInfinity = NegInfinity"
| "js_minus (Fin _) NegInfinity = PosInfinity"
| "js_minus PosInfinity PosInfinity = NaN"
| "js_minus NegInfinity NegInfinity = NaN"
| "js_minus PosInfinity _ = PosInfinity"
| "js_minus NegInfinity _ = NegInfinity"

fun js_times :: "number \<Rightarrow> number \<Rightarrow> number" where
  "js_times NaN _ = NaN"
| "js_times _ NaN = NaN"
| "js_times (Fin x) (Fin y) = Fin (x * y)"
| "js_times (Fin x) PosInfinity = (if x = 0 then NaN else if 0 < x then PosInfinity else NegInfinity)"
| "js_times (Fin x) NegInfinity = (if x = 0 then NaN else if 0 < x then NegInfinity else PosInfinity)"
| "js_times PosInfinity (Fin y) = (if y = 0 then NaN else if 0 < y then PosInfinity else NegInfinity)"
| "js_times NegInfinity (Fin y) = (if y = 0 then NaN else if 0 < y then NegInfinity else PosInfinity)"
| "js_times PosInfinity PosInfinity = PosInfinity"
| "js_times NegInfinity NegInfinity = PosInfinity"
| "js_times PosInfinity NegInfinity = NegInfinity"
| "js_times NegInfinity PosInfinity = NegInfinity"

text \<open>
  Division. A zero divisor is taken as \<^verbatim>\<open>+0\<close>: the divisors of this program are a sum of
  two collection sizes and the entries of the scale table, never \<^verbatim>\<open>-0\<close>.
\<close>

fun js_divide :: "number \<Rightarrow> number \<Rightarrow> number" where
  "js_divide NaN _ = NaN"
| "js_divide _ NaN = NaN"
| "js_divide (Fin x) (Fin y) =
     (if y \<noteq> 0 then Fin (x / y)
      else if x = 0 then NaN else if 0 < x then PosInfinity else NegInfinity)"
| "js_divide (Fin _) PosInfinity = Fin 0"
| "js_divide (Fin _) NegInfinity = Fin 0"
| "js_divide PosInfinity (Fin y) = (if 0 \<le> y then PosInfinity else NegInfinity)"
| "js_divide NegInfinity (Fin y) = (if 0 \<le> y then NegInfinity else PosInfinity)"
| "js_divide PosInfinity _ = NaN"
| "js_divide NegInfinity _ = NaN"

text \<open>The comparison \<^verbatim>\<open>a <= b\<close>: false as soon as one operand is \<^verbatim>\<open>NaN\<close>.\<close>

fun js_le :: "number \<Rightarrow> number \<Rightarrow> bool" where
  "js_le NaN _ = False"
| "js_le _ NaN = False"
| "js_le (Fin x) (Fin y) = (x \<le> y)"
| "js_le NegInfinity _ = True"
| "js_le _ PosInfinity = True"
| "js_le _ _ = False"

definition Math_min :: "number \<Rightarrow> number \<Rightarrow> number" where
  "Math_min a b = (if isNaN a \<or> isNaN b then NaN else if js_le a b then a else b)"

definition Math_max :: "number \<Rightarrow> number \<Rightarrow> number" where
  "Math_max a b = (if isNaN a \<or> isNaN b then NaN else if js_le a b then b else a)"


section \<open>The value formatter: \<^verbatim>\<open>getMiddleNumber\<close>\<close>

text \<open>
  The loop of \<^verbatim>\<open>getMiddleNumber\<close>: an entry that is \<^verbatim>\<open>=== 0\<close>, \<^verbatim>\<open>NaN\<close> or not finite is
  skipped, the absolute value of every other entry is pushed. Only finite entries are
  pushed, so \<^verbatim>\<open>filteredAbsData\<close> is carried as a list of reals.
\<close>

fun finite_value :: "number \<Rightarrow> real" where
  "finite_value (Fin x) = x"
| "finite_value _ = 0"

fun filteredAbsData :: "number list \<Rightarrow> real list" where
  "filteredAbsData [] = []"
| "filteredAbsData (v # values) =
     (if v = Fin 0 \<or> isNaN v \<or> \<not> isFinite v then filteredAbsData values
      else finite_value (Math_abs v) # filteredAbsData values)"

text \<open>
  \<^verbatim>\<open>Array.prototype.sort(compareFn)\<close> with a consistent comparator yields the stable sorted
  arrangement: an insertion sort that puts an element before the first of the later
  elements that it need not follow (\<^verbatim>\<open>compareFn(x, y) <= 0\<close>).
\<close>

fun insert_by :: "(real \<Rightarrow> real \<Rightarrow> real) \<Rightarrow> real \<Rightarrow> real list \<Rightarrow> real list" where
  "insert_by compareFn x [] = [x]"
| "insert_by compareFn x (y # ys) =
     (if compareFn x y \<le> 0 then x # y # ys else y # insert_by compareFn x ys)"

fun array_sort :: "(real \<Rightarrow> real \<Rightarrow> real) \<Rightarrow> real list \<Rightarrow> real list" where
  "array_sort compareFn [] = []"
| "array_sort compareFn (x # xs) = insert_by compareFn x (array_sort compareFn xs)"

text \<open>The index \<^verbatim>\<open>Math.ceil((n - 1) / 2)\<close>.\<close>

definition middle_index :: "nat \<Rightarrow> nat" where
  "middle_index n = nat \<lceil>(real n - 1) / 2\<rceil>"

definition getMiddleNumber :: "number list \<Rightarrow> number" where
  "getMiddleNumber values =
     (let filtered = filteredAbsData values;
          n = length filtered
      in if n \<noteq> 0
         then Fin (array_sort (\<lambda>a b. b - a) filtered ! middle_index n)
         else Fin 0)"

text \<open>
  The spec's words for the result, for comparison: the median of the absolute values
  that rounds up, that is, the larger of the two middle candidates of an even count.
\<close>

definition median_rounding_up :: "real list \<Rightarrow> real" where
  "median_rounding_up xs = sort xs ! (length xs div 2)"

text \<open>What the code selects: the lower of the two middle candidates.\<close>

definition lower_median :: "real list \<Rightarrow> real" where
  "lower_median xs = sort xs ! ((length xs - 1) div 2)"

text \<open>The entries that count: the finite ones other than 0, in their order.\<close>

definition valid_entries :: "number list \<Rightarrow> real list" where
  "valid_entries values = [x. Fin x \<leftarrow> values, x \<noteq> 0]"


section \<open>The value formatter: \<^verbatim>\<open>formatterFromData\<close>\<close>

text \<open>
  The two scale tables, \<^verbatim>\<open>scales.a\<close> and \<^verbatim>\<open>scales.b\<close>. The format type comes out of the
  character class \<^verbatim>\<open>[ab]\<close> of the pattern, so it is one of two values.
\<close>

datatype FormatType = A | B

fun type_letter :: "FormatType \<Rightarrow> char" where
  "type_letter A = CHR ''a''"
| "type_letter B = CHR ''b''"

fun scales :: "FormatType \<Rightarrow> (string \<times> real) list" where
  "scales A =
     [('''', 1), (''k'', 1000), (''m'', 1000000), (''b'', 1000000000), (''t'', 1000000000000)]"
| "scales B =
     [(''B'', 1),
      (''KB'', 1024),
      (''MB'', 1024 * 1024),
      (''GB'', 1024 * 1024 * 1024),
      (''TB'', 1024 * 1024 * 1024 * 1024),
      (''PB'', 1024 * 1024 * 1024 * 1024 * 1024),
      (''EB'', 1024 * 1024 * 1024 * 1024 * 1024 * 1024),
      (''ZB'', 1024 * 1024 * 1024 * 1024 * 1024 * 1024 * 1024),
      (''YB'', 1024 * 1024 * 1024 * 1024 * 1024 * 1024 * 1024 * 1024)]"

text \<open>
  The characters that \<^verbatim>\<open>\S\<close> excludes, among the code units below 256: tab, line feed,
  vertical tab, form feed, carriage return, space and the no-break space.
\<close>

definition is_whitespace :: "char \<Rightarrow> bool" where
  "is_whitespace c =
     (c \<in> set [CHR 0x09, CHR 0x0A, CHR 0x0B, CHR 0x0C, CHR 0x0D, CHR 0x20, CHR 0xA0])"

definition letter_type :: "char \<Rightarrow> FormatType option" where
  "letter_type c =
     (if c = CHR ''a'' then Some A else if c = CHR ''b'' then Some B else None)"

text \<open>
  \<^verbatim>\<open>format.match(/^(\S*)( ?)([ab])$/)\<close>, read from the end of the string: the last
  character is the format type; a space before it is the second group, since the first
  group cannot hold it; whatever is left must be free of whitespace and is the first
  group. The result is the three groups, \<open>None\<close> for \<^verbatim>\<open>null\<close>.
\<close>

definition format_match :: "string \<Rightarrow> (string \<times> string \<times> FormatType) option" where
  "format_match format =
     (case rev format of
        [] \<Rightarrow> None
      | t # r \<Rightarrow>
         (case letter_type t of
            None \<Rightarrow> None
          | Some formatType \<Rightarrow>
             (case r of
                [] \<Rightarrow> Some ([], [], formatType)
              | c # r' \<Rightarrow>
                  if c = CHR '' ''
                  then (if list_ex is_whitespace r' then None
                        else Some (rev r', [c], formatType))
                  else (if list_ex is_whitespace r then None
                        else Some (rev r, [], formatType)))))"

text \<open>\<^verbatim>\<open>s.split(" ")\<close>: the pieces between single spaces, at least one piece.\<close>

fun split_space :: "string \<Rightarrow> string list" where
  "split_space [] = [[]]"
| "split_space (c # cs) =
     (if c = CHR '' '' then [] # split_space cs
      else (case split_space cs of
              [] \<Rightarrow> [[c]]
            | w # ws \<Rightarrow> (c # w) # ws))"

text \<open>\<^verbatim>\<open>formatMiddle.split(" ")[1] || ""\<close>: a missing or an empty second piece gives \<^verbatim>\<open>""\<close>.\<close>

definition unit_of :: "string \<Rightarrow> string" where
  "unit_of formatMiddle =
     (case split_space formatMiddle of
        _ # u # _ \<Rightarrow> (if u \<noteq> [] then u else [])
      | _ \<Rightarrow> [])"

text \<open>
  The value of \<^verbatim>\<open>scales[formatType][unit]\<close> as an operand of the division: a unit that
  is no key of the table gives \<^verbatim>\<open>undefined\<close>, which the division reads as \<^verbatim>\<open>NaN\<close>.
\<close>

definition scale_of :: "FormatType \<Rightarrow> string \<Rightarrow> number" where
  "scale_of formatType unit =
     (case map_of (scales formatType) unit of
        None \<Rightarrow> NaN
      | Some scale \<Rightarrow> Fin scale)"

text \<open>
  \<^verbatim>\<open>formatterFromData\<close>. The number-formatting library is a parameter:
  \<open>numeral_format n f\<close> stands for \<^verbatim>\<open>numeral(n).format(f)\<close>.
\<close>

definition formatterFromData ::
  "(number \<Rightarrow> string \<Rightarrow> string) \<Rightarrow> number list \<Rightarrow> string \<Rightarrow> number \<Rightarrow> string" where
  "formatterFromData numeral_format values format =
     (case format_match format of
        Some (numberFormat, space, formatType) \<Rightarrow>
          let middle = getMiddleNumber values;
              formatMiddle = numeral_format middle (''0 '' @ [type_letter formatType]);
              unit = unit_of formatMiddle;
              scale = scale_of formatType unit;
              append = (if unit \<noteq> [] then space @ unit else [])
          in (\<lambda>n. if isNaN n \<or> \<not> isFinite n then ''-''
                  else numeral_format (js_divide n scale) numberFormat @ append)
      | None \<Rightarrow>
          (\<lambda>n. if isNaN n \<or> \<not> isFinite n then ''-''
               else numeral_format n format))"

text \<open>The decimal digits of a natural number, as the runtime prints an integer.\<close>

definition digit_char :: "nat \<Rightarrow> char" where
  "digit_char d = ''0123456789'' ! d"

fun digits_of :: "nat \<Rightarrow> string" where
  "digits_of n =
     (if n < 10 then [digit_char n] else digits_of (n div 10) @ [digit_char (n mod 10)])"

declare digits_of.simps [simp del]

text \<open>
  A stand-in for the number-formatting library, to run the formatter on examples: it
  prints the rounded magnitude in digits and, for the two unit formats, picks the unit by
  thousands (\<^verbatim>\<open>k\<close>, \<^verbatim>\<open>m\<close>) or by powers of 1024 (\<^verbatim>\<open>KB\<close>, \<^verbatim>\<open>MB\<close>).
\<close>

definition rounded :: "real \<Rightarrow> string" where
  "rounded x = (if round x < 0 then ''-'' else []) @ digits_of (nat \<bar>round x\<bar>)"

fun sample_numeral :: "number \<Rightarrow> string \<Rightarrow> string" where
  "sample_numeral (Fin x) f =
     (if f = ''0 a'' then
        (if \<bar>x\<bar> < 1000 then rounded x
         else if \<bar>x\<bar> < 1000000 then rounded (x / 1000) @ '' k''
         else rounded (x / 1000000) @ '' m'')
      else if f = ''0 b'' then
        (if \<bar>x\<bar> < 1024 then rounded x @ '' B''
         else if \<bar>x\<bar> < 1024 * 1024 then rounded (x / 1024) @ '' KB''
         else rounded (x / (1024 * 1024)) @ '' MB'')
      else rounded x)"
| "sample_numeral _ f = ''0''"


section \<open>The value formatter: values and ranges\<close>

text \<open>
  The ranges of the expression library. An open end is \<^verbatim>\<open>null\<close>, here \<open>None\<close>. Instants
  are counted in milliseconds.
\<close>

datatype NumberRange = NumberRange (range_start: "number option") (range_end: "number option")

datatype TimeRange = TimeRange (time_start: "int option") (time_end: "int option")

type_synonym Timezone = string

datatype DisplayYear = ALWAYS | NEVER | IF_DIFF

text \<open>The values that reach \<^verbatim>\<open>formatValue\<close>, whose parameter has the type \<^verbatim>\<open>any\<close>.\<close>

datatype jsvalue =
    VNumberRange NumberRange
  | VTimeRange TimeRange
  | VString string
  | VNumber number
  | VBoolean bool
  | VNull
  | VUndefined

fun truthy :: "jsvalue \<Rightarrow> bool" where
  "truthy (VNumber n) = (\<not> (n = Fin 0 \<or> isNaN n))"
| "truthy (VString s) = (s \<noteq> [])"
| "truthy (VBoolean b) = b"
| "truthy VNull = False"
| "truthy VUndefined = False"
| "truthy (VNumberRange _) = True"
| "truthy (VTimeRange _) = True"

text \<open>\<^verbatim>\<open>a || b\<close>: the left operand when it is truthy, the right operand otherwise.\<close>

definition js_or :: "jsvalue \<Rightarrow> jsvalue \<Rightarrow> jsvalue" where
  "js_or a b = (if truthy a then a else b)"

text \<open>An end of a number range as a value: a number or \<^verbatim>\<open>null\<close>.\<close>

fun bound_value :: "number option \<Rightarrow> jsvalue" where
  "bound_value None = VNull"
| "bound_value (Some n) = VNumber n"

text \<open>
  What the program takes from elsewhere to format values and clauses: \<^verbatim>\<open>formatTimeRange\<close>
  of the time utilities, \<^verbatim>\<open>getDescription\<close> of the duration library, the four labels of
  \<^verbatim>\<open>STRINGS\<close> it reads, and the runtime's conversion of a number to a string where that
  is not the plain run of the digits of an integer (fractions, and magnitudes from
  \<open>2\<^sup>5\<^sup>3\<close> on, where the digits printed are no longer those of the exact value).
\<close>

datatype Duration = Duration (toString: string)

record STRINGS =
  previous :: string
  current :: string
  latest :: string
  quarter :: string

record Collaborators =
  formatTimeRange :: "TimeRange \<Rightarrow> Timezone option \<Rightarrow> DisplayYear option \<Rightarrow> string"
  getDescription :: "Duration \<Rightarrow> string"
  strings :: STRINGS
  numberToStringOther :: "real \<Rightarrow> string"

definition is_integer :: "real \<Rightarrow> bool" where
  "is_integer x = (of_int \<lfloor>x\<rfloor> = x)"

text \<open>\<^verbatim>\<open>"" + n\<close> for a number.\<close>

fun numberToString :: "Collaborators \<Rightarrow> number \<Rightarrow> string" where
  "numberToString ext NaN = ''NaN''"
| "numberToString ext PosInfinity = ''Infinity''"
| "numberToString ext NegInfinity = ''-Infinity''"
| "numberToString ext (Fin x) =
     (if is_integer x \<and> \<bar>x\<bar> < 2 ^ 53
      then (if x < 0 then ''-'' else []) @ digits_of (nat \<lfloor>\<bar>x\<bar>\<rfloor>)
      else numberToStringOther ext x)"

text \<open>\<^verbatim>\<open>"" + value\<close> for a value that is no range.\<close>

fun valueToString :: "Collaborators \<Rightarrow> jsvalue \<Rightarrow> string" where
  "valueToString ext (VString s) = s"
| "valueToString ext (VNumber n) = numberToString ext n"
| "valueToString ext (VBoolean b) = (if b then ''true'' else ''false'')"
| "valueToString ext VNull = ''null''"
| "valueToString ext VUndefined = ''undefined''"
| "valueToString ext _ = ''[object Object]''"

text \<open>
  \<^verbatim>\<open>formatValue\<close> and \<^verbatim>\<open>formatNumberRange\<close> call each other. The value that
  \<^verbatim>\<open>formatNumberRange\<close> passes on is a number or the string \<^verbatim>\<open>"any"\<close>, never a range, so
  the recursion ends after one round.
\<close>

function formatValue ::
    "Collaborators \<Rightarrow> jsvalue \<Rightarrow> Timezone option \<Rightarrow> DisplayYear option \<Rightarrow> string"
  and formatNumberRange :: "Collaborators \<Rightarrow> NumberRange \<Rightarrow> string" where
  "formatValue ext v timezone displayYear =
     (case v of
        VNumberRange r \<Rightarrow> formatNumberRange ext r
      | VTimeRange t \<Rightarrow> formatTimeRange ext t timezone displayYear
      | _ \<Rightarrow> valueToString ext v)"
| "formatNumberRange ext r =
     formatValue ext (js_or (bound_value (range_start r)) (VString ''any'')) None None
       @ '' to ''
       @ formatValue ext (js_or (bound_value (range_end r)) (VString ''any'')) None None"
  by pat_completeness auto

termination
proof (relation "measure (\<lambda>x. case x of
          Inl (ext, v, timezone, displayYear) \<Rightarrow> (case v of VNumberRange r \<Rightarrow> 2 | _ \<Rightarrow> 0)
        | Inr (ext, r) \<Rightarrow> 1)")
  show "wf (measure (\<lambda>x. case x of
          Inl (ext, v, timezone, displayYear) \<Rightarrow> (case v of VNumberRange r \<Rightarrow> 2 | _ \<Rightarrow> 0)
        | Inr (ext, r) \<Rightarrow> (1::nat)))"
    by simp
qed (auto simp: js_or_def split: option.splits jsvalue.splits elim: bound_value.elims)


section \<open>The value formatter: filter clauses\<close>

text \<open>
  Modelled from the spec: the filter clauses of \<^verbatim>\<open>models/filter-clause/filter-clause\<close> and
  the dimension of \<^verbatim>\<open>models/dimension/dimension\<close>, which are not among the source files.
  A clause is a tagged variant: a time filter, fixed (a list of date ranges, of which
  the formatter reads the first) or relative (a period and a duration); a string filter
  with its action; or another filter on a set of values. \<^verbatim>\<open>isTimeFilter\<close> holds of the
  time filters, and there the formatter casts the clause to \<^verbatim>\<open>TimeFilterClause\<close>. The
  values of a clause are listed in the order of their collection, so that \<^verbatim>\<open>count()\<close> is
  the length and \<^verbatim>\<open>first()\<close> the head.
\<close>

datatype Dimension = Dimension (dimension_title: string)

datatype DateRange = DateRange (date_start: int) (date_end: int)

datatype StringFilterAction = IN | MATCH | CONTAINS

datatype TimeFilterPeriod = PREVIOUS | LATEST | CURRENT

datatype TimeFilterClause =
    FixedTimeFilterClause "DateRange list"
  | RelativeTimeFilterClause TimeFilterPeriod Duration

datatype FilterClause =
    TimeFilter TimeFilterClause
  | StringFilterClause StringFilterAction "jsvalue list"
  | ValueSetFilterClause "jsvalue list"

fun isTimeFilter :: "FilterClause \<Rightarrow> bool" where
  "isTimeFilter (TimeFilter _) = True"
| "isTimeFilter _ = False"

text \<open>\<^verbatim>\<open>clause.values\<close> of a clause that is no time filter.\<close>

fun clause_values :: "FilterClause \<Rightarrow> jsvalue list" where
  "clause_values (StringFilterClause _ vs) = vs"
| "clause_values (ValueSetFilterClause vs) = vs"
| "clause_values _ = []"

text \<open>\<^verbatim>\<open>first()\<close> of a collection: \<^verbatim>\<open>undefined\<close> when it is empty.\<close>

fun first :: "jsvalue list \<Rightarrow> jsvalue" where
  "first [] = VUndefined"
| "first (v # _) = v"

text \<open>\<^verbatim>\<open>clause instanceof StringFilterClause && clause.action === action\<close>.\<close>

fun is_string_clause_with :: "FilterClause \<Rightarrow> StringFilterAction \<Rightarrow> bool" where
  "is_string_clause_with (StringFilterClause a _) action = (a = action)"
| "is_string_clause_with _ action = False"

text \<open>
  The one exception on the way: \<^verbatim>\<open>TimeRange.fromJS\<close> of the expression library reads the
  \<^verbatim>\<open>start\<close> and \<^verbatim>\<open>end\<close> of its argument, and \<^verbatim>\<open>clause.values.get(0)\<close> is \<^verbatim>\<open>undefined\<close> for a
  list without elements.
\<close>

datatype error = TimeRangeFromUndefined

fun TimeRange_fromJS :: "DateRange option \<Rightarrow> error + TimeRange" where
  "TimeRange_fromJS None = Inl TimeRangeFromUndefined"
| "TimeRange_fromJS (Some d) = Inr (TimeRange (Some (date_start d)) (Some (date_end d)))"

text \<open>\<^verbatim>\<open>list.get(0)\<close>.\<close>

fun get0 :: "'a list \<Rightarrow> 'a option" where
  "get0 [] = None"
| "get0 (x # _) = Some x"

text \<open>\<^verbatim>\<open>toLowerCase()\<close>, on the letters A to Z.\<close>

definition lower_char :: "char \<Rightarrow> char" where
  "lower_char c =
     (case map_of (zip ''ABCDEFGHIJKLMNOPQRSTUVWXYZ'' ''abcdefghijklmnopqrstuvwxyz'') c of
        None \<Rightarrow> c
      | Some l \<Rightarrow> l)"

definition toLowerCase :: "string \<Rightarrow> string" where
  "toLowerCase s = map lower_char s"

definition getQualifiedDurationDescription :: "Collaborators \<Rightarrow> Duration \<Rightarrow> string" where
  "getQualifiedDurationDescription ext duration =
     (if toString duration = ''P3M'' then toLowerCase (quarter (strings ext))
      else getDescription ext duration)"

fun getFormattedTimeClauseValues ::
  "Collaborators \<Rightarrow> TimeFilterClause \<Rightarrow> Timezone \<Rightarrow> error + string" where
  "getFormattedTimeClauseValues ext (FixedTimeFilterClause ranges) timezone =
     (case TimeRange_fromJS (get0 ranges) of
        Inl e \<Rightarrow> Inl e
      | Inr t \<Rightarrow> Inr (formatTimeRange ext t (Some timezone) (Some IF_DIFF)))"
| "getFormattedTimeClauseValues ext (RelativeTimeFilterClause period duration) timezone =
     (case period of
        PREVIOUS \<Rightarrow>
          Inr (previous (strings ext) @ '' '' @ getQualifiedDurationDescription ext duration)
      | CURRENT \<Rightarrow>
          Inr (current (strings ext) @ '' '' @ getQualifiedDurationDescription ext duration)
      | LATEST \<Rightarrow>
          Inr (latest (strings ext) @ '' '' @ getQualifiedDurationDescription ext duration))"

definition getFilterClauseValues ::
  "Collaborators \<Rightarrow> FilterClause \<Rightarrow> Timezone \<Rightarrow> error + string" where
  "getFilterClauseValues ext clause timezone =
     (case clause of
        TimeFilter timeClause \<Rightarrow> getFormattedTimeClauseValues ext timeClause timezone
      | _ \<Rightarrow>
        let setElements = clause_values clause;
            values0 = (if length setElements > 1
                       then ''('' @ digits_of (length setElements) @ '')''
                       else formatValue ext (first setElements) None None);
            values1 = (if is_string_clause_with clause MATCH
                       then ''/'' @ values0 @ ''/'' else values0);
            values2 = (if is_string_clause_with clause CONTAINS
                       then [CHR 0x22] @ values1 @ [CHR 0x22] else values1)
        in Inr values2)"

definition getClauseLabel :: "FilterClause \<Rightarrow> Dimension \<Rightarrow> string" where
  "getClauseLabel clause dimension =
     (let dimensionTitle = dimension_title dimension
      in if isTimeFilter clause then []
         else
           let delimiter =
                 (if is_string_clause_with clause MATCH \<or> is_string_clause_with clause CONTAINS
                  then '' ~'' else '':'');
               clauseValues = clause_values clause
           in if length clauseValues > 1 then dimensionTitle
              else dimensionTitle @ delimiter)"

text \<open>The pair \<^verbatim>\<open>{ title, values }\<close>; \<open>values'\<close> is its field \<^verbatim>\<open>values\<close>.\<close>

record FormattedClause =
  title :: string
  values' :: string

definition getFormattedClause ::
  "Collaborators \<Rightarrow> Dimension \<Rightarrow> FilterClause \<Rightarrow> Timezone \<Rightarrow> error + FormattedClause" where
  "getFormattedClause ext dimension clause timezone =
     (case getFilterClauseValues ext clause timezone of
        Inl e \<Rightarrow> Inl e
      | Inr vs \<Rightarrow> Inr \<lparr> title = getClauseLabel clause dimension, values' = vs \<rparr>)"

text \<open>
  \<^verbatim>\<open>formatFilterClause\<close>; the call through \<^verbatim>\<open>this\<close> reaches the \<^verbatim>\<open>getFormattedClause\<close> of the
  module, as it does when the function is called as a member of the module's exports.
\<close>

definition formatFilterClause ::
  "Collaborators \<Rightarrow> Dimension \<Rightarrow> FilterClause \<Rightarrow> Timezone \<Rightarrow> error + string" where
  "formatFilterClause ext dimension clause timezone =
     (case getFormattedClause ext dimension clause timezone of
        Inl e \<Rightarrow> Inl e
      | Inr formatted \<Rightarrow>
          Inr (if title formatted \<noteq> [] then title formatted @ '' '' @ values' formatted
               else values' formatted))"

text \<open>Stand-ins for the collaborators, to run the formatter on examples.\<close>

definition sample_collaborators :: Collaborators where
  "sample_collaborators =
     \<lparr> formatTimeRange = (\<lambda>t timezone displayYear. ''a time range''),
       getDescription = (\<lambda>d. toString d),
       strings = \<lparr> previous = ''Previous'', current = ''Current'',
                   latest = ''Latest'', quarter = ''Quarter'' \<rparr>,
       numberToStringOther = (\<lambda>x. ''a number'') \<rparr>"


section \<open>The measures definition converter\<close>

text \<open>
  The ordered set of the collections library: distinct elements in the order of their
  insertion. \<^verbatim>\<open>add\<close> leaves a set that holds the element as it is and appends the element
  otherwise; \<^verbatim>\<open>OrderedSet.of\<close> adds its arguments one after the other to the empty set.
\<close>

typedef 'a OrderedSet = "{xs :: 'a list. distinct xs}"
  morphisms toArray Abs_OrderedSet
  by (rule exI [of _ "[]"]) simp

setup_lifting type_definition_OrderedSet

lift_definition OrderedSet_empty :: "'a OrderedSet" is "[]"
  by simp

lift_definition OrderedSet_add :: "'a \<Rightarrow> 'a OrderedSet \<Rightarrow> 'a OrderedSet"
  is "\<lambda>x xs. if x \<in> set xs then xs else xs @ [x]"
  by simp

definition OrderedSet_of :: "'a list \<Rightarrow> 'a OrderedSet" where
  "OrderedSet_of xs = foldl (\<lambda>s x. OrderedSet_add x s) OrderedSet_empty xs"

record MeasuresDefinitionJS =
  isMulti :: bool
  single :: string
  multi :: "string list"

record Measures =
  isMulti :: bool
  single :: string
  multi :: "string OrderedSet"

text \<open>
  Modelled from the spec: \<^verbatim>\<open>createMeasures\<close> of \<^verbatim>\<open>models/essence/essence\<close>, which is not
  among the source files, is the constructor of the in-memory value: it keeps the three
  fields it is given.
\<close>

definition createMeasures :: "bool \<Rightarrow> string \<Rightarrow> string OrderedSet \<Rightarrow> Measures" where
  "createMeasures is_multi the_single the_multi =
     \<lparr> Measures.isMulti = is_multi, Measures.single = the_single, Measures.multi = the_multi \<rparr>"

definition fromEssenceMeasures :: "Measures \<Rightarrow> MeasuresDefinitionJS" where
  "fromEssenceMeasures ms =
     \<lparr> MeasuresDefinitionJS.isMulti = Measures.isMulti ms,
       MeasuresDefinitionJS.single = Measures.single ms,
       MeasuresDefinitionJS.multi = toArray (Measures.multi ms) \<rparr>"

definition toEssenceMeasures :: "MeasuresDefinitionJS \<Rightarrow> Measures" where
  "toEssenceMeasures ms =
     createMeasures (MeasuresDefinitionJS.isMulti ms)
       (MeasuresDefinitionJS.single ms)
       (OrderedSet_of (MeasuresDefinitionJS.multi ms))"


section \<open>The resizable dimension/measure panel\<close>

definition MIN_PANEL_SIZE :: number where
  "MIN_PANEL_SIZE = Fin 100"

record DimensionMeasurePanelState =
  dividerPosition :: number
  containerHeight :: number

record DividerConstraints =
  minDividerPosition :: number
  maxDividerPosition :: number

definition dividerConstraints :: "number \<Rightarrow> DividerConstraints" where
  "dividerConstraints height =
     \<lparr> minDividerPosition = Math_min MIN_PANEL_SIZE height,
       maxDividerPosition = Math_max (js_minus height MIN_PANEL_SIZE) (Fin 0) \<rparr>"

text \<open>
  Modelled from the spec: \<^verbatim>\<open>clamp\<close> of \<^verbatim>\<open>client/utils/dom/dom\<close>, which is not among the
  source files. The spec names it only as \<^verbatim>\<open>clamp(value, min, max)\<close>; it is taken as the
  usual clamp, the larger of \<^verbatim>\<open>value\<close> and \<^verbatim>\<open>min\<close>, cut off at \<^verbatim>\<open>max\<close>. All readings of
  ``clamp'' agree when \<^verbatim>\<open>min <= max\<close>, and no result below rests on its value for crossed
  bounds.
\<close>

definition clamp :: "number \<Rightarrow> number \<Rightarrow> number \<Rightarrow> number" where
  "clamp n lo hi = Math_min (Math_max n lo) hi"

text \<open>The state a component instance starts with.\<close>

definition initial_state :: DimensionMeasurePanelState where
  "initial_state =
     \<lparr> dividerPosition = MIN_PANEL_SIZE,
       containerHeight = js_times (Fin 2) MIN_PANEL_SIZE \<rparr>"

text \<open>
  \<^verbatim>\<open>calculateInitialPosition\<close>, the ref callback of the container. Its argument is the
  height \<^verbatim>\<open>getBoundingClientRect()\<close> measures for the container, \<open>None\<close> when the
  callback receives \<^verbatim>\<open>null\<close> (then it returns at once and the state stays). The two
  counts are the sizes of the data cube's dimension and measure collections.
\<close>

definition calculateInitialPosition ::
  "number option \<Rightarrow> nat \<Rightarrow> nat \<Rightarrow> DimensionMeasurePanelState \<Rightarrow> DimensionMeasurePanelState" where
  "calculateInitialPosition container dimensionsCount measuresCount s =
     (case container of
        None \<Rightarrow> s
      | Some height \<Rightarrow>
          let ratio = js_divide (Fin (real dimensionsCount))
                        (Fin (real (measuresCount + dimensionsCount)));
              c = dividerConstraints height;
              position = clamp (js_times height ratio)
                           (minDividerPosition c) (maxDividerPosition c)
          in \<lparr> dividerPosition = position, containerHeight = height \<rparr>)"

definition saveDividerPosition ::
  "number \<Rightarrow> DimensionMeasurePanelState \<Rightarrow> DimensionMeasurePanelState" where
  "saveDividerPosition position s = s\<lparr> dividerPosition := position \<rparr>"

text \<open>\<^verbatim>\<open>saveContainerRect\<close>, the window's resize listener; its argument is the height measured.\<close>

definition saveContainerRect ::
  "number \<Rightarrow> DimensionMeasurePanelState \<Rightarrow> DimensionMeasurePanelState" where
  "saveContainerRect height s = s\<lparr> containerHeight := height \<rparr>"

text \<open>
  The invariant of the spec: the divider position lies between the two bounds that
  \<^verbatim>\<open>dividerConstraints\<close> gives for the container height of the state.
\<close>

definition between_bounds :: "number \<Rightarrow> number \<Rightarrow> bool" where
  "between_bounds height position =
     (js_le (minDividerPosition (dividerConstraints height)) position \<and>
      js_le position (maxDividerPosition (dividerConstraints height)))"

definition divider_within_bounds :: "DimensionMeasurePanelState \<Rightarrow> bool" where
  "divider_within_bounds s = between_bounds (containerHeight s) (dividerPosition s)"

text \<open>
  Modelled from the spec: the resize handle of \<^verbatim>\<open>client/components/resize-handle\<close>, which
  is not among the source files. The panel renders it with the two bounds of the current
  container height, and a drag reports the pointer's position clamped to them.
\<close>

definition dragged_position :: "number \<Rightarrow> number \<Rightarrow> number" where
  "dragged_position height pointer =
     (let c = dividerConstraints height
      in clamp pointer (minDividerPosition c) (maxDividerPosition c))"

text \<open>
  The states of the panel: those after the measurement at mount, after a drag and after
  a re-measurement on a window resize. A measured height is a finite, non-negative
  number, a pointer position a finite one.
\<close>

inductive reachable :: "DimensionMeasurePanelState \<Rightarrow> bool" where
  mount: "0 \<le> h \<Longrightarrow> 0 < d \<Longrightarrow> 0 < m \<Longrightarrow>
          reachable (calculateInitialPosition (Some (Fin h)) d m initial_state)"
| drag: "reachable s \<Longrightarrow>
         reachable (saveDividerPosition (dragged_position (containerHeight s) (Fin x)) s)"
| resize: "reachable s \<Longrightarrow> 0 \<le> h \<Longrightarrow> reachable (saveContainerRect (Fin h) s)"



section \<open>Properties of \<^verbatim>\<open>getMiddleNumber\<close>\<close>

lemma filteredAbsData_eq: "filteredAbsData values = map abs (valid_entries values)"
proof (induction "values")
  case Nil
  show ?case by (simp add: valid_entries_def)
next
  case (Cons v vs)
  then show ?case by (cases v) (simp_all add: valid_entries_def)
qed

lemma mset_insert_by: "mset (insert_by f x xs) = add_mset x (mset xs)"
  by (induction xs) simp_all

lemma mset_array_sort: "mset (array_sort f xs) = mset xs"
  by (induction xs) (simp_all add: mset_insert_by)

lemma length_array_sort: "length (array_sort f xs) = length xs"
  using mset_array_sort [of f xs] by (metis size_mset)

lemma set_insert_by: "set (insert_by f x xs) = insert x (set xs)"
  using mset_insert_by [of f x xs] by (metis set_mset_add_mset_insert set_mset_mset)

lemma descending_insert_by:
  "sorted (rev xs) \<Longrightarrow> sorted (rev (insert_by (\<lambda>a b. b - a) x xs))"
proof (induction xs)
  case Nil
  show ?case by simp
next
  case (Cons y ys)
  from Cons.prems have ys: "sorted (rev ys)" and le: "\<forall>z \<in> set ys. z \<le> y"
    by (auto simp: sorted_append)
  show ?case
  proof (cases "y - x \<le> 0")
    case True
    with Cons.prems le show ?thesis by (auto simp: sorted_append)
  next
    case False
    with Cons.IH [OF ys] le show ?thesis
      by (auto simp: sorted_append set_insert_by)
  qed
qed

lemma descending_array_sort: "sorted (rev (array_sort (\<lambda>a b. b - a) xs))"
  by (induction xs) (simp_all add: descending_insert_by)

lemma array_sort_descending_eq: "array_sort (\<lambda>a b. b - a) xs = rev (sort xs)"
proof -
  have "sort xs = rev (array_sort (\<lambda>a b. b - a) xs)"
    by (rule properties_for_sort) (simp_all add: mset_array_sort descending_array_sort)
  then show ?thesis by simp
qed

lemma middle_index_eq: "0 < n \<Longrightarrow> middle_index n = n div 2"
  unfolding middle_index_def by (cases "even n") (auto elim!: evenE oddE simp: ceiling_eq_iff nat_eq_iff)

lemma middle_index_in_range: "0 < n \<Longrightarrow> middle_index n < n"
  by (simp add: middle_index_eq)

lemma getMiddleNumber_finite: "isFinite (getMiddleNumber vs)"
  by (simp add: getMiddleNumber_def Let_def)

lemma lower_median_odd:
  "odd (length xs) \<Longrightarrow> lower_median xs = median_rounding_up xs"
  by (auto simp: lower_median_def median_rounding_up_def elim!: oddE)

text \<open>
  C2 (as amended). \<^verbatim>\<open>getMiddleNumber\<close> discards the entries equal to 0, \<^verbatim>\<open>NaN\<close> or an
  infinity, takes the absolute values of the others and returns their median, which for
  an even count is the smaller of the two middle candidates: the index is rounded up in
  an array sorted in descending order. With no valid entry the result is 0, and so it
  is for the empty list.
\<close>

theorem getMiddleNumber_lower_median:
  "getMiddleNumber vs =
     (if valid_entries vs = [] then Fin 0
      else Fin (lower_median (map abs (valid_entries vs))))
   \<and> getMiddleNumber [] = Fin 0"
proof -
  have empty: "getMiddleNumber [] = Fin 0"
    by (simp add: getMiddleNumber_def)
  have "getMiddleNumber vs =
     (if valid_entries vs = [] then Fin 0
      else Fin (lower_median (map abs (valid_entries vs))))"
  proof (cases "valid_entries vs = []")
    case True
    then show ?thesis by (simp add: getMiddleNumber_def filteredAbsData_eq)
  next
    case False
    let ?xs = "map abs (valid_entries vs)"
    from False have n: "0 < length ?xs" by simp
    have idx: "length ?xs div 2 < length (sort ?xs)" using n by simp
    have "rev (sort ?xs) ! (length ?xs div 2) = sort ?xs ! (length ?xs - Suc (length ?xs div 2))"
      using rev_nth [OF idx] by simp
    moreover have "length ?xs - Suc (length ?xs div 2) = (length ?xs - 1) div 2"
      using n by presburger
    ultimately show ?thesis using False n
      by (simp add: getMiddleNumber_def filteredAbsData_eq array_sort_descending_eq
          middle_index_eq lower_median_def Let_def del: length_map)
  qed
  with empty show ?thesis by simp
qed

theorem getMiddleNumber_lower_median_witness:
  "valid_entries [Fin 0, Fin (- 1000), Fin (- 100), Fin 10, Fin 1, NaN, PosInfinity]
     = [- 1000, - 100, 10, 1]
   \<and> getMiddleNumber [Fin 0, Fin (- 1000), Fin (- 100), Fin 10, Fin 1, NaN, PosInfinity]
     = Fin 10"
  using getMiddleNumber_lower_median
    [of "[Fin 0, Fin (- 1000), Fin (- 100), Fin 10, Fin 1, NaN, PosInfinity]"]
  by (simp add: valid_entries_def lower_median_def)

text \<open>
  C2 as the claim states it fails: of the two entries 1 and 2 the code returns 1, where
  the median that rounds up is 2.
\<close>

theorem getMiddleNumber_rounds_down_counterexample:
  "getMiddleNumber [Fin 1, Fin 2] = Fin 1
   \<and> median_rounding_up (map abs (valid_entries [Fin 1, Fin 2])) = 2"
  by (simp add: getMiddleNumber_def middle_index_def median_rounding_up_def valid_entries_def)


section \<open>Properties of \<^verbatim>\<open>formatterFromData\<close>\<close>

lemma letter_type_type_letter: "letter_type (type_letter ft) = Some ft"
  by (cases ft) (simp_all add: letter_type_def)

lemma letter_type_SomeD: "letter_type c = Some ft \<Longrightarrow> c = type_letter ft"
  by (cases ft) (auto simp: letter_type_def split: if_splits)

lemma space_is_whitespace: "is_whitespace (CHR '' '')"
  by (simp add: is_whitespace_def)

text \<open>
  The matcher is the pattern: a string matches with the groups \<open>p\<close>, \<open>sp\<close> and the type
  \<open>ft\<close> exactly when it is \<open>p\<close>, free of whitespace, then \<open>sp\<close>, empty or one space, then
  the letter of \<open>ft\<close>.
\<close>

lemma format_match_intro:
  assumes "\<not> list_ex is_whitespace p" "sp = [] \<or> sp = '' ''"
  shows "format_match (p @ sp @ [type_letter ft]) = Some (p, sp, ft)"
proof -
  from assms(2) show ?thesis
  proof
    assume sp: "sp = []"
    show ?thesis
    proof (cases "rev p")
      case Nil
      then show ?thesis using sp by (simp add: format_match_def letter_type_type_letter)
    next
      case (Cons c r')
      then have p: "p = rev r' @ [c]" by (metis rev_rev_ident rev.simps(2))
      with assms(1) have nws: "\<not> is_whitespace c" "\<not> list_ex is_whitespace r'"
        by (simp_all add: list_ex_iff)
      then have "c \<noteq> CHR '' ''" using space_is_whitespace by auto
      then show ?thesis using sp p nws
        by (simp add: format_match_def letter_type_type_letter)
    qed
  next
    assume sp: "sp = '' ''"
    then show ?thesis using assms(1)
      by (simp add: format_match_def letter_type_type_letter)
  qed
qed

lemma format_match_elim:
  assumes "format_match s = Some (p, sp, ft)"
  shows "s = p @ sp @ [type_letter ft] \<and> \<not> list_ex is_whitespace p \<and> (sp = [] \<or> sp = '' '')"
proof (cases "rev s")
  case Nil
  with assms show ?thesis by (simp add: format_match_def)
next
  case (Cons t r)
  then have s: "s = rev r @ [t]" by (metis rev_rev_ident rev.simps(2))
  from assms Cons obtain ft' where lt: "letter_type t = Some ft'"
    by (auto simp: format_match_def split: option.splits)
  then have t: "t = type_letter ft'" by (rule letter_type_SomeD)
  show ?thesis
  proof (cases r)
    case Nil
    with assms Cons lt s t show ?thesis
      by (auto simp: format_match_def)
  next
    case (Cons c r')
    with assms \<open>rev s = t # r\<close> lt s t show ?thesis
      by (auto simp: format_match_def space_is_whitespace split: if_splits)
  qed
qed

lemma format_match_Some_iff:
  "format_match s = Some (p, sp, ft) \<longleftrightarrow>
     s = p @ sp @ [type_letter ft] \<and> \<not> list_ex is_whitespace p \<and> (sp = [] \<or> sp = '' '')"
  using format_match_intro format_match_elim by blast

text \<open>A format that is not of this shape has no match.\<close>

lemma format_match_None_iff:
  "format_match s = None \<longleftrightarrow>
     \<not> (\<exists>p sp ft. s = p @ sp @ [type_letter ft] \<and> \<not> list_ex is_whitespace p
                    \<and> (sp = [] \<or> sp = '' ''))"
proof
  assume "format_match s = None"
  then show "\<not> (\<exists>p sp ft. s = p @ sp @ [type_letter ft] \<and> \<not> list_ex is_whitespace p
                    \<and> (sp = [] \<or> sp = '' ''))"
    using format_match_intro by fastforce
next
  assume none: "\<not> (\<exists>p sp ft. s = p @ sp @ [type_letter ft] \<and> \<not> list_ex is_whitespace p
                    \<and> (sp = [] \<or> sp = '' ''))"
  show "format_match s = None"
  proof (cases "format_match s")
    case None
    then show ?thesis .
  next
    case (Some g)
    obtain p sp ft where "g = (p, sp, ft)" by (cases g)
    with Some format_match_elim [of s p sp ft] none show ?thesis by blast
  qed
qed

text \<open>
  C7. For every format string and every list of values, the formatter that
  \<^verbatim>\<open>formatterFromData\<close> returns maps an input that is not finite (\<^verbatim>\<open>NaN\<close> or an infinity) to
  \<^verbatim>\<open>"-"\<close>, whether the format matched the pattern or not; and when the format does not
  match (\<open>format_match\<close> gives \<open>None\<close>), it applies the format string as it is to every
  finite input. The model has no failing branch.
\<close>

theorem formatterFromData_sentinel_and_fallback:
  "(\<not> isFinite n \<longrightarrow> formatterFromData numeral_format vs format n = ''-'')
   \<and> (format_match format = None \<and> isFinite n \<longrightarrow>
        formatterFromData numeral_format vs format n = numeral_format n format)"
  by (cases n) (auto simp: formatterFromData_def Let_def split: option.splits)

theorem formatterFromData_sentinel_and_fallback_witness:
  "formatterFromData sample_numeral [Fin 1500, Fin 3000] ''0.0 a'' NaN = ''-''
   \<and> formatterFromData sample_numeral [Fin 1500, Fin 3000] ''0,0'' NegInfinity = ''-''
   \<and> format_match ''0,0'' = None
   \<and> formatterFromData sample_numeral [Fin 1500, Fin 3000] ''0,0'' (Fin 4500) = ''4500''"
  using formatterFromData_sentinel_and_fallback
      [of NaN sample_numeral "[Fin 1500, Fin 3000]" "''0.0 a''"]
    formatterFromData_sentinel_and_fallback
      [of NegInfinity sample_numeral "[Fin 1500, Fin 3000]" "''0,0''"]
    formatterFromData_sentinel_and_fallback
      [of "Fin 4500" sample_numeral "[Fin 1500, Fin 3000]" "''0,0''"]
  by (simp add: format_match_def letter_type_def rounded_def round_def
      digits_of.simps digit_char_def)

lemma getMiddleNumber_Fin: "getMiddleNumber vs = Fin (finite_value (getMiddleNumber vs))"
  by (simp add: getMiddleNumber_def Let_def)

lemma split_space_no_space: "CHR '' '' \<notin> set w \<Longrightarrow> split_space w = [w]"
  by (induction w) auto

lemma split_space_first_piece:
  "CHR '' '' \<notin> set w \<Longrightarrow> split_space (w @ CHR '' '' # r) = w # split_space r"
  by (induction w) auto

text \<open>The unit is the second of the pieces that single spaces separate.\<close>

lemma unit_of_second_piece:
  assumes "CHR '' '' \<notin> set digits" "CHR '' '' \<notin> set u"
    and "sep = '' '' \<or> (sep = [] \<and> u = [] \<and> rest = [])"
    and "rest = [] \<or> hd rest = CHR '' ''"
  shows "unit_of (digits @ sep @ u @ rest) = u"
proof -
  have second: "\<exists>ps. split_space (u @ rest) = u # ps"
  proof (cases rest)
    case Nil
    with assms(2) show ?thesis by (simp add: split_space_no_space)
  next
    case (Cons c r)
    with assms(4) have "rest = CHR '' '' # r" by simp
    with assms(2) show ?thesis by (simp add: split_space_first_piece)
  qed
  from assms(3) show ?thesis
  proof
    assume "sep = '' ''"
    with assms(1) second show ?thesis
      by (auto simp: unit_of_def split_space_first_piece)
  next
    assume "sep = [] \<and> u = [] \<and> rest = []"
    with assms(1) show ?thesis
      by (simp add: unit_of_def split_space_no_space)
  qed
qed

text \<open>Every output of the library reads in this way, so the reading restricts nothing.\<close>

lemma output_pieces:
  "\<exists>digits sep u rest. out = digits @ sep @ u @ rest
     \<and> CHR '' '' \<notin> set digits \<and> CHR '' '' \<notin> set u
     \<and> (sep = '' '' \<or> (sep = [] \<and> u = [] \<and> rest = []))
     \<and> (rest = [] \<or> hd rest = CHR '' '')"
proof (cases "dropWhile (\<lambda>c. c \<noteq> CHR '' '') out")
  case Nil
  then have "CHR '' '' \<notin> set out"
    by (auto simp: dropWhile_eq_Nil_conv)
  then have "out = out @ [] @ [] @ [] \<and> CHR '' '' \<notin> set out \<and> CHR '' '' \<notin> set ([] :: string)
     \<and> (([] :: string) = '' '' \<or> (([] :: string) = [] \<and> ([] :: string) = [] \<and> ([] :: string) = []))
     \<and> (([] :: string) = [] \<or> hd ([] :: string) = CHR '' '')"
    by simp
  then show ?thesis by blast
next
  case (Cons c r)
  let ?P = "\<lambda>c. c \<noteq> CHR '' ''"
  let ?d = "takeWhile ?P out"
  let ?u = "takeWhile ?P r"
  let ?rest = "dropWhile ?P r"
  from Cons have c: "c = CHR '' ''"
    using hd_dropWhile [of ?P out] by (metis list.sel(1) list.simps(3))
  have "out = ?d @ dropWhile ?P out" by simp
  also have "\<dots> = ?d @ '' '' @ ?u @ ?rest" using Cons c by simp
  finally have out: "out = ?d @ '' '' @ ?u @ ?rest" .
  have d: "CHR '' '' \<notin> set ?d" and u: "CHR '' '' \<notin> set ?u"
    by (auto dest: set_takeWhileD)
  have rest: "?rest = [] \<or> hd ?rest = CHR '' ''"
    using hd_dropWhile [of ?P r] by auto
  from out d u rest show ?thesis by blast
qed

text \<open>The two tables, entry by entry.\<close>

lemma scales_A:
  "map_of (scales A) =
     map_of [('''', 1), (''k'', 10 ^ 3), (''m'', 10 ^ 6), (''b'', 10 ^ 9), (''t'', 10 ^ 12)]"
  by simp

lemma scales_B:
  "map_of (scales B) =
     map_of [(''B'', 1), (''KB'', 1024), (''MB'', 1024 ^ 2), (''GB'', 1024 ^ 3),
             (''TB'', 1024 ^ 4), (''PB'', 1024 ^ 5), (''EB'', 1024 ^ 6), (''ZB'', 1024 ^ 7),
             (''YB'', 1024 ^ 8)]"
  by simp

lemma scales_nonzero: "map_of (scales formatType) u = Some sc \<Longrightarrow> sc \<noteq> 0"
  by (cases formatType) (auto split: if_splits)

lemma js_divide_scale_of:
  "js_divide (Fin x) (scale_of formatType u) =
     (case map_of (scales formatType) u of Some sc \<Rightarrow> Fin (x / sc) | None \<Rightarrow> NaN)"
  by (auto simp: scale_of_def split: option.splits dest: scales_nonzero)

text \<open>
  C8. Let the format be a number format free of whitespace, an optional space and the
  letter \<^verbatim>\<open>a\<close> or \<^verbatim>\<open>b\<close>, and let the library print the middle number of the values, under
  \<^verbatim>\<open>"0 a"\<close> or \<^verbatim>\<open>"0 b"\<close>, as \<open>digits\<close>, a space and the unit \<open>u\<close> (and possibly more after a
  further space), or as \<open>digits\<close> alone, where the unit is empty. Then the scale is the
  entry of \<open>u\<close> in the table of the letter (1, \<open>10\<^sup>3\<close>, \<open>10\<^sup>6\<close>, \<open>10\<^sup>9\<close>, \<open>10\<^sup>1\<^sup>2\<close> for the empty
  unit, \<^verbatim>\<open>k\<close>, \<^verbatim>\<open>m\<close>, \<^verbatim>\<open>b\<close>, \<^verbatim>\<open>t\<close>; the powers of 1024 for \<^verbatim>\<open>B\<close> to \<^verbatim>\<open>YB\<close>), and the formatter that
  \<^verbatim>\<open>formatterFromData\<close> returns maps every finite input \<open>x\<close> to the number format of
  \<open>x / scale\<close> followed by the optional space and \<open>u\<close> (nothing is appended for the empty
  unit; for a unit outside the table the quotient is \<^verbatim>\<open>NaN\<close>). In particular the middle
  number itself, which is finite, is printed with the unit \<open>u\<close> that the library chose
  for it.
\<close>

theorem formatterFromData_unit_and_scale:
  assumes "\<not> list_ex is_whitespace numberFormat" "space = [] \<or> space = '' ''"
    and "numeral_format (getMiddleNumber vs) (''0 '' @ [type_letter formatType])
           = digits @ sep @ u @ rest"
    and "CHR '' '' \<notin> set digits" "CHR '' '' \<notin> set u"
    and "sep = '' '' \<or> (sep = [] \<and> u = [] \<and> rest = [])"
    and "rest = [] \<or> hd rest = CHR '' ''"
  shows "let formatter = formatterFromData numeral_format vs
                           (numberFormat @ space @ [type_letter formatType]);
             scale = (case formatType of
                        A \<Rightarrow> map_of [('''', 1), (''k'', 10 ^ 3), (''m'', 10 ^ 6),
                                     (''b'', 10 ^ 9), (''t'', 10 ^ 12)] u
                      | B \<Rightarrow> map_of [(''B'', 1), (''KB'', 1024), (''MB'', 1024 ^ 2),
                                     (''GB'', 1024 ^ 3), (''TB'', 1024 ^ 4), (''PB'', 1024 ^ 5),
                                     (''EB'', 1024 ^ 6), (''ZB'', 1024 ^ 7), (''YB'', 1024 ^ 8)] u);
             scaled = (\<lambda>x. case scale of Some sc \<Rightarrow> Fin (x / sc) | None \<Rightarrow> NaN);
             suffix = (if u = [] then [] else space @ u);
             middle = finite_value (getMiddleNumber vs)
         in formatter (Fin x) = numeral_format (scaled x) numberFormat @ suffix
            \<and> getMiddleNumber vs = Fin middle
            \<and> formatter (Fin middle) = numeral_format (scaled middle) numberFormat @ suffix"
proof -
  let ?format = "numberFormat @ space @ [type_letter formatType]"
  have m: "format_match ?format = Some (numberFormat, space, formatType)"
    using assms(1,2) by (rule format_match_intro)
  have u: "unit_of (numeral_format (getMiddleNumber vs) (''0 '' @ [type_letter formatType])) = u"
    unfolding assms(3) using assms(4-7) by (rule unit_of_second_piece)
  have tbl: "(case formatType of
                A \<Rightarrow> map_of [('''', 1), (''k'', 10 ^ 3), (''m'', 10 ^ 6),
                             (''b'', 10 ^ 9), (''t'', 10 ^ 12)] u
              | B \<Rightarrow> map_of [(''B'', 1), (''KB'', 1024), (''MB'', 1024 ^ 2),
                             (''GB'', 1024 ^ 3), (''TB'', 1024 ^ 4), (''PB'', 1024 ^ 5),
                             (''EB'', 1024 ^ 6), (''ZB'', 1024 ^ 7), (''YB'', 1024 ^ 8)] u)
             = map_of (scales formatType) (u :: string)"
    by (cases formatType) (simp_all only: FormatType.case scales_A scales_B)
  have f: "formatterFromData numeral_format vs ?format (Fin y)
             = numeral_format (case map_of (scales formatType) u of
                                 Some sc \<Rightarrow> Fin (y / sc) | None \<Rightarrow> NaN) numberFormat
                 @ (if u = [] then [] else space @ u)" for y
    using u by (simp add: formatterFromData_def m Let_def js_divide_scale_of)
  show ?thesis
    unfolding Let_def tbl
    by (intro conjI) (rule f, rule getMiddleNumber_Fin, rule f)
qed

theorem formatterFromData_unit_and_scale_witness:
  "getMiddleNumber [Fin 1500, Fin 2500000, Fin 3000] = Fin 3000
   \<and> sample_numeral (Fin 3000) ''0 a'' = ''3'' @ '' '' @ ''k''
   \<and> formatterFromData sample_numeral [Fin 1500, Fin 2500000, Fin 3000] ''0.0 a'' (Fin 4500)
       = sample_numeral (Fin (4500 / 1000)) ''0.0'' @ '' k''
   \<and> formatterFromData sample_numeral [Fin 1500, Fin 2500000, Fin 3000] ''0.0 a'' (Fin 4500)
       = ''5 k''
   \<and> formatterFromData sample_numeral [Fin 1500, Fin 2500000, Fin 3000] ''0.0 a'' (Fin 3000)
       = ''3 k''"
proof -
  have mid: "getMiddleNumber [Fin 1500, Fin 2500000, Fin 3000] = Fin 3000"
    by (simp add: getMiddleNumber_def middle_index_def)
  have out: "sample_numeral (getMiddleNumber [Fin 1500, Fin 2500000, Fin 3000])
               (''0 '' @ [type_letter A]) = ''3'' @ '' '' @ ''k'' @ []"
    by (simp add: mid rounded_def round_def digits_of.simps digit_char_def)
  have nws: "\<not> list_ex is_whitespace ''0.0''"
    by (simp add: is_whitespace_def)
  from formatterFromData_unit_and_scale
    [where numeral_format = sample_numeral and vs = "[Fin 1500, Fin 2500000, Fin 3000]"
      and formatType = A and numberFormat = "''0.0''" and space = "'' ''"
      and digits = "''3''" and sep = "'' ''" and u = "''k''" and rest = "[]" and x = 4500,
      OF nws _ out]
  show ?thesis
    by (simp add: Let_def mid rounded_def round_def digits_of.simps digit_char_def)
qed


section \<open>Properties of \<^verbatim>\<open>formatValue\<close> on number ranges\<close>

text \<open>What one end of a range prints as.\<close>

lemma format_bound:
  "formatValue ext (js_or (bound_value None) (VString ''any'')) None None = ''any''"
  "formatValue ext (js_or (bound_value (Some (Fin 0))) (VString ''any'')) None None = ''any''"
  "n \<noteq> Fin 0 \<Longrightarrow> \<not> isNaN n \<Longrightarrow>
     formatValue ext (js_or (bound_value (Some n)) (VString ''any'')) None None
       = numberToString ext n"
  by (simp_all add: js_or_def)

text \<open>The two examples of the spec: a closed range, and a range with an open start.\<close>

lemma formatValue_range_examples:
  "formatValue ext (VNumberRange (NumberRange (Some (Fin 1)) (Some (Fin 5)))) timezone displayYear
     = ''1 to 5''"
  "formatValue ext (VNumberRange (NumberRange None (Some (Fin 5)))) timezone displayYear
     = ''any to 5''"
  by (simp_all add: js_or_def is_integer_def digits_of.simps digit_char_def)

text \<open>
  C3. A number range prints as its start, \<^verbatim>\<open>" to "\<close> and its end, with \<^verbatim>\<open>"any"\<close> for an open
  end. The code breaks this for an end that is 0: the closed range from 0 to 5 prints as
  \<^verbatim>\<open>"any to 5"\<close>, where the claim has \<^verbatim>\<open>"0 to 5"\<close>.
\<close>

theorem formatValue_zero_start_prints_any:
  "formatValue sample_collaborators
     (VNumberRange (NumberRange (Some (Fin 0)) (Some (Fin 5)))) None None = ''any to 5''"
  by (simp add: js_or_def is_integer_def digits_of.simps digit_char_def)

text \<open>
  C10. \<^verbatim>\<open>formatNumberRange\<close> prints a start that is 0 as \<^verbatim>\<open>"any"\<close>, and so an end that is 0:
  the end is tested with \<^verbatim>\<open>||\<close>, for which 0 is as false as \<^verbatim>\<open>null\<close>. A range with a zero
  end prints as the range with that end open.
\<close>

theorem formatNumberRange_zero_bound_is_any:
  "formatNumberRange ext (NumberRange (Some (Fin 0)) e)
     = ''any to '' @ formatValue ext (js_or (bound_value e) (VString ''any'')) None None
   \<and> formatNumberRange ext (NumberRange s (Some (Fin 0)))
     = formatValue ext (js_or (bound_value s) (VString ''any'')) None None @ '' to any''
   \<and> formatNumberRange ext (NumberRange (Some (Fin 0)) e)
     = formatNumberRange ext (NumberRange None e)
   \<and> formatNumberRange ext (NumberRange s (Some (Fin 0)))
     = formatNumberRange ext (NumberRange s None)"
  by (simp add: js_or_def)

theorem formatNumberRange_zero_bound_is_any_witness:
  "formatNumberRange sample_collaborators (NumberRange (Some (Fin 0)) (Some (Fin 7)))
     = ''any to 7''
   \<and> formatNumberRange sample_collaborators (NumberRange (Some (Fin (- 3))) (Some (Fin 0)))
     = ''-3 to any''
   \<and> formatNumberRange sample_collaborators (NumberRange None (Some (Fin 7))) = ''any to 7''"
  using formatNumberRange_zero_bound_is_any
    [of sample_collaborators "Some (Fin 7)" "Some (Fin (- 3))"]
  by (simp add: js_or_def is_integer_def digits_of.simps digit_char_def)


section \<open>Properties of the clause formatter\<close>

text \<open>
  C9 (as amended). \<^verbatim>\<open>getFormattedClause\<close> returns a pair of a title and values. The title
  is empty for a time filter, the bare title of the dimension for a clause of more than
  one value, and otherwise the title of the dimension followed by \<^verbatim>\<open>" ~"\<close> (a string
  clause with the action MATCH or CONTAINS) or \<^verbatim>\<open>":"\<close>. The values are, for a clause that
  is no time filter, the count in parentheses when the clause holds more than one value
  and the formatted first value otherwise, put between slashes for a string clause with
  the action MATCH and between double quotes for one with the action CONTAINS; for a
  fixed time filter with a range, the formatted first range; for a relative time filter,
  the label of the period, a space and the description of the duration, which is the
  lower-case label of the quarter for the duration \<^verbatim>\<open>P3M\<close>.
\<close>

theorem getFormattedClause_by_kind:
  "getFormattedClause ext dimension (StringFilterClause action vs) timezone =
     Inr \<lparr> title = (if length vs > 1 then dimension_title dimension
                    else if action = MATCH \<or> action = CONTAINS
                    then dimension_title dimension @ '' ~''
                    else dimension_title dimension @ '':''),
           values' = (let v = (if length vs > 1 then ''('' @ digits_of (length vs) @ '')''
                               else formatValue ext (first vs) None None)
                      in if action = MATCH then ''/'' @ v @ ''/''
                         else if action = CONTAINS then [CHR 0x22] @ v @ [CHR 0x22]
                         else v) \<rparr>
   \<and> getFormattedClause ext dimension (ValueSetFilterClause vs) timezone =
     Inr \<lparr> title = (if length vs > 1 then dimension_title dimension
                    else dimension_title dimension @ '':''),
           values' = (if length vs > 1 then ''('' @ digits_of (length vs) @ '')''
                      else formatValue ext (first vs) None None) \<rparr>
   \<and> getFormattedClause ext dimension (TimeFilter (FixedTimeFilterClause (r # rs))) timezone =
     Inr \<lparr> title = [],
           values' = formatTimeRange ext (TimeRange (Some (date_start r)) (Some (date_end r)))
                       (Some timezone) (Some IF_DIFF) \<rparr>
   \<and> getFormattedClause ext dimension
       (TimeFilter (RelativeTimeFilterClause period duration)) timezone =
     Inr \<lparr> title = [],
           values' = (case period of
                        PREVIOUS \<Rightarrow> previous (strings ext)
                      | CURRENT \<Rightarrow> current (strings ext)
                      | LATEST \<Rightarrow> latest (strings ext))
                     @ '' ''
                     @ (if toString duration = ''P3M'' then toLowerCase (quarter (strings ext))
                        else getDescription ext duration) \<rparr>"
  by (cases period; cases action)
     (simp_all add: getFormattedClause_def getFilterClauseValues_def getClauseLabel_def Let_def
        getQualifiedDurationDescription_def)

theorem getFormattedClause_by_kind_witness:
  "getFormattedClause sample_collaborators (Dimension ''Page'')
       (StringFilterClause CONTAINS [VString ''foo'', VString ''bar'']) ''Etc/UTC''
     = Inr \<lparr> title = ''Page'', values' = [CHR 0x22] @ ''(2)'' @ [CHR 0x22] \<rparr>
   \<and> getFormattedClause sample_collaborators (Dimension ''Count'')
       (ValueSetFilterClause [VNumberRange (NumberRange (Some (Fin 1)) (Some (Fin 5)))])
       ''Etc/UTC''
     = Inr \<lparr> title = ''Count:'', values' = ''1 to 5'' \<rparr>
   \<and> getFormattedClause sample_collaborators (Dimension ''Time'')
       (TimeFilter (RelativeTimeFilterClause PREVIOUS (Duration ''P3M''))) ''Etc/UTC''
     = Inr \<lparr> title = [], values' = ''Previous quarter'' \<rparr>"
  using getFormattedClause_by_kind
      [of sample_collaborators "Dimension ''Page''" CONTAINS
        "[VString ''foo'', VString ''bar'']" "''Etc/UTC''"]
    getFormattedClause_by_kind
      [of sample_collaborators "Dimension ''Count''" IN
        "[VNumberRange (NumberRange (Some (Fin 1)) (Some (Fin 5)))]" "''Etc/UTC''"]
    getFormattedClause_by_kind
      [where ext = sample_collaborators and dimension = "Dimension ''Time''"
        and period = PREVIOUS and duration = "Duration ''P3M''" and timezone = "''Etc/UTC''"]
  by (simp add: Let_def digits_of.simps digit_char_def js_or_def is_integer_def
      sample_collaborators_def toLowerCase_def lower_char_def)

text \<open>
  C9 as the claim states it fails: for a string clause with the action MATCH and the
  one value \<^verbatim>\<open>foo\<close>, the values are \<^verbatim>\<open>/foo/\<close>, not the formatted value \<^verbatim>\<open>foo\<close>.
\<close>

theorem getFormattedClause_match_counterexample:
  "getFormattedClause sample_collaborators (Dimension ''Page'')
       (StringFilterClause MATCH [VString ''foo'']) ''Etc/UTC''
     = Inr \<lparr> title = ''Page ~'', values' = ''/foo/'' \<rparr>
   \<and> formatValue sample_collaborators (first [VString ''foo'']) None None = ''foo''"
  by (simp add: getFormattedClause_def getFilterClauseValues_def getClauseLabel_def Let_def)

text \<open>
  C1 (as amended). For every dimension, every time zone and every filter clause other
  than a fixed time filter without a range, \<^verbatim>\<open>formatFilterClause\<close> raises no exception and
  returns a string: the values of the clause alone when the title is empty, and
  otherwise the title, one space and the values.
\<close>

theorem formatFilterClause_returns:
  assumes "clause \<noteq> TimeFilter (FixedTimeFilterClause [])"
  shows "\<exists>formatted. getFormattedClause ext dimension clause timezone = Inr formatted
           \<and> formatFilterClause ext dimension clause timezone
               = Inr (if title formatted = [] then values' formatted
                      else title formatted @ '' '' @ values' formatted)"
proof -
  have "\<exists>vs. getFilterClauseValues ext clause timezone = Inr vs"
  proof (cases clause)
    case (TimeFilter timeClause)
    show ?thesis
    proof (cases timeClause)
      case (FixedTimeFilterClause ranges)
      with assms TimeFilter obtain r rs where "ranges = r # rs"
        by (cases ranges) auto
      with FixedTimeFilterClause TimeFilter show ?thesis
        by (simp add: getFilterClauseValues_def)
    next
      case (RelativeTimeFilterClause period duration)
      with TimeFilter show ?thesis
        by (cases period) (simp_all add: getFilterClauseValues_def)
    qed
  qed (simp_all add: getFilterClauseValues_def Let_def)
  then show ?thesis
    by (auto simp: getFormattedClause_def formatFilterClause_def)
qed

theorem formatFilterClause_returns_witness:
  "StringFilterClause IN [VString ''en''] \<noteq> TimeFilter (FixedTimeFilterClause [])
   \<and> getFormattedClause sample_collaborators (Dimension ''Language'')
       (StringFilterClause IN [VString ''en'']) ''Etc/UTC''
     = Inr \<lparr> title = ''Language:'', values' = ''en'' \<rparr>
   \<and> formatFilterClause sample_collaborators (Dimension ''Language'')
       (StringFilterClause IN [VString ''en'']) ''Etc/UTC''
     = Inr ''Language: en''"
  using formatFilterClause_returns
    [of "StringFilterClause IN [VString ''en'']" sample_collaborators
      "Dimension ''Language''" "''Etc/UTC''"]
  by (simp add: getFormattedClause_def getFilterClauseValues_def getClauseLabel_def Let_def)

text \<open>
  C1 as the claim states it fails: for a fixed time filter with an empty list of ranges
  the call ends in the exception of \<^verbatim>\<open>TimeRange.fromJS\<close>.
\<close>

theorem formatFilterClause_raises_counterexample:
  "formatFilterClause sample_collaborators (Dimension ''Time'')
     (TimeFilter (FixedTimeFilterClause [])) ''Etc/UTC'' = Inl TimeRangeFromUndefined"
  by (simp add: formatFilterClause_def getFormattedClause_def getFilterClauseValues_def)



section \<open>Properties of the measures definition converter\<close>

lemma toArray_add_fresh:
  "x \<notin> set (toArray s) \<Longrightarrow> toArray (OrderedSet_add x s) = toArray s @ [x]"
  by (simp add: OrderedSet_add.rep_eq)

lemma distinct_toArray: "distinct (toArray s)"
  using toArray [of s] by simp

text \<open>Adding distinct elements that the set does not hold appends them in their order.\<close>

lemma toArray_foldl_add:
  "distinct xs \<Longrightarrow> set xs \<inter> set (toArray s) = {} \<Longrightarrow>
   toArray (foldl (\<lambda>s x. OrderedSet_add x s) s xs) = toArray s @ xs"
proof (induction xs arbitrary: s)
  case Nil
  show ?case by simp
next
  case (Cons x xs)
  from Cons.prems have fresh: "x \<notin> set (toArray s)" by auto
  have "toArray (foldl (\<lambda>s x. OrderedSet_add x s) (OrderedSet_add x s) xs)
          = toArray (OrderedSet_add x s) @ xs"
    using Cons.prems fresh by (intro Cons.IH) (auto simp: toArray_add_fresh)
  with fresh show ?case by (simp add: toArray_add_fresh)
qed

lemma OrderedSet_of_toArray: "OrderedSet_of (toArray s) = s"
proof -
  have "toArray (OrderedSet_of (toArray s)) = toArray s"
    unfolding OrderedSet_of_def
    using toArray_foldl_add [of "toArray s" OrderedSet_empty]
    by (simp add: distinct_toArray OrderedSet_empty.rep_eq)
  then show ?thesis by (simp add: toArray_inject)
qed

text \<open>\<^verbatim>\<open>OrderedSet.of\<close> keeps the elements of any list, duplicates merged.\<close>

lemma set_toArray_foldl_add:
  "set (toArray (foldl (\<lambda>s x. OrderedSet_add x s) s xs)) = set (toArray s) \<union> set xs"
  by (induction xs arbitrary: s) (auto simp: OrderedSet_add.rep_eq)

lemma set_OrderedSet_of: "set (toArray (OrderedSet_of xs)) = set xs"
  by (simp add: OrderedSet_of_def set_toArray_foldl_add OrderedSet_empty.rep_eq)

text \<open>
  C4. For every measures value \<open>m\<close>, converting \<open>m\<close> to its definition and back gives \<open>m\<close>
  again; in particular \<^verbatim>\<open>isMulti\<close>, \<^verbatim>\<open>single\<close> and the set of the elements of \<^verbatim>\<open>multi\<close> are
  preserved. Both converters are total functions without an error branch.
\<close>

theorem measures_round_trip:
  "toEssenceMeasures (fromEssenceMeasures m) = m
   \<and> Measures.isMulti (toEssenceMeasures (fromEssenceMeasures m)) = Measures.isMulti m
   \<and> Measures.single (toEssenceMeasures (fromEssenceMeasures m)) = Measures.single m
   \<and> set (toArray (Measures.multi (toEssenceMeasures (fromEssenceMeasures m))))
       = set (toArray (Measures.multi m))"
proof -
  have "toEssenceMeasures (fromEssenceMeasures m) = m"
    by (simp add: toEssenceMeasures_def fromEssenceMeasures_def createMeasures_def
        OrderedSet_of_toArray)
  then show ?thesis by simp
qed

theorem measures_round_trip_witness:
  "toEssenceMeasures (fromEssenceMeasures
       (createMeasures True ''clicks'' (OrderedSet_of [''clicks'', ''views''])))
     = createMeasures True ''clicks'' (OrderedSet_of [''clicks'', ''views''])
   \<and> MeasuresDefinitionJS.multi (fromEssenceMeasures
       (createMeasures True ''clicks'' (OrderedSet_of [''clicks'', ''views''])))
     = [''clicks'', ''views'']"
  using measures_round_trip
    [of "createMeasures True ''clicks'' (OrderedSet_of [''clicks'', ''views''])"]
  by (simp add: fromEssenceMeasures_def createMeasures_def OrderedSet_of_def
      OrderedSet_add.rep_eq OrderedSet_empty.rep_eq)


section \<open>Properties of the panel\<close>

lemma dividerConstraints_Fin:
  "minDividerPosition (dividerConstraints (Fin h)) = Fin (min 100 h)"
  "maxDividerPosition (dividerConstraints (Fin h)) = Fin (max (h - 100) 0)"
  by (auto simp: dividerConstraints_def Math_min_def Math_max_def MIN_PANEL_SIZE_def)

text \<open>The two bounds are in order exactly for a height of at least 200, or of at most 0.\<close>

lemma bounds_ordered_iff:
  "js_le (minDividerPosition (dividerConstraints (Fin h)))
         (maxDividerPosition (dividerConstraints (Fin h)))
   \<longleftrightarrow> h \<le> 0 \<or> 200 \<le> h"
  by (auto simp: dividerConstraints_Fin)

lemma clamp_Fin: "clamp (Fin x) (Fin lo) (Fin hi) = Fin (min (max x lo) hi)"
  by (auto simp: clamp_def Math_min_def Math_max_def)

lemma between_bounds_Fin:
  "between_bounds (Fin h) (Fin p) \<longleftrightarrow> min 100 h \<le> p \<and> p \<le> max (h - 100) 0"
  by (simp add: between_bounds_def dividerConstraints_Fin)

text \<open>No position lies between crossed bounds.\<close>

lemma between_bounds_crossed: "0 < h \<Longrightarrow> h < 200 \<Longrightarrow> \<not> between_bounds (Fin h) p"
  by (cases p) (auto simp: between_bounds_def dividerConstraints_Fin)

lemma calculateInitialPosition_Fin:
  assumes "0 < d + m"
  shows "calculateInitialPosition (Some (Fin h)) d m s =
     \<lparr> dividerPosition =
         Fin (min (max (h * (real d / real (m + d))) (min 100 h)) (max (h - 100) 0)),
       containerHeight = Fin h \<rparr>"
proof -
  from assms have "real (m + d) \<noteq> 0"
    by (simp only: of_nat_eq_0_iff)
  then show ?thesis
    by (simp add: calculateInitialPosition_def dividerConstraints_Fin clamp_Fin Let_def
        del: of_nat_add)
qed

text \<open>
  C6 (as amended). After the measurement at mount, for every measured height and all
  positive counts of dimensions and measures, the divider position is the clamp of
  \<open>height * dimensionsCount / (dimensionsCount + measuresCount)\<close> to the two bounds of that
  height; it lies between the two bounds exactly when the height is 0 or at least 200,
  twice the minimal size of a pane, since below that the lower bound is above the upper.
\<close>

theorem calculateInitialPosition_clamped:
  assumes "0 < dimensionsCount" "0 < measuresCount" "0 \<le> h"
  shows "let constraints = dividerConstraints (Fin h);
             s' = calculateInitialPosition (Some (Fin h)) dimensionsCount measuresCount s
         in dividerPosition s'
              = clamp (Fin (h * real dimensionsCount / (real dimensionsCount + real measuresCount)))
                  (minDividerPosition constraints) (maxDividerPosition constraints)
            \<and> containerHeight s' = Fin h
            \<and> (js_le (minDividerPosition constraints) (dividerPosition s')
                 \<and> js_le (dividerPosition s') (maxDividerPosition constraints)
               \<longleftrightarrow> h = 0 \<or> 200 \<le> h)"
proof -
  from assms have pos: "0 < dimensionsCount + measuresCount" by simp
  show ?thesis
    using assms(3)
    by (auto simp: calculateInitialPosition_Fin [OF pos] dividerConstraints_Fin clamp_Fin
        Let_def add.commute)
qed

theorem calculateInitialPosition_clamped_witness:
  "let constraints = dividerConstraints (Fin 1000);
       s' = calculateInitialPosition (Some (Fin 1000)) 1 3 initial_state
   in minDividerPosition constraints = Fin 100 \<and> maxDividerPosition constraints = Fin 900
      \<and> dividerPosition s' = Fin 250 \<and> containerHeight s' = Fin 1000
      \<and> js_le (minDividerPosition constraints) (dividerPosition s')
      \<and> js_le (dividerPosition s') (maxDividerPosition constraints)"
  using calculateInitialPosition_clamped [of 1 3 1000 initial_state]
  by (simp add: Let_def dividerConstraints_Fin clamp_Fin)

text \<open>
  C6 as the claim states it fails: a container measured at a height of 150 gets the
  lower bound 100 and the upper bound 50, and no position lies between the two.
\<close>

theorem calculateInitialPosition_counterexample:
  "minDividerPosition (dividerConstraints (Fin 150)) = Fin 100
   \<and> maxDividerPosition (dividerConstraints (Fin 150)) = Fin 50
   \<and> \<not> divider_within_bounds (calculateInitialPosition (Some (Fin 150)) 1 1 initial_state)"
  by (simp add: calculateInitialPosition_Fin dividerConstraints_Fin divider_within_bounds_def
      between_bounds_Fin)



lemma dragged_position_Fin:
  "dragged_position (Fin h) (Fin x) = Fin (min (max x (min 100 h)) (max (h - 100) 0))"
  by (simp add: dragged_position_def Let_def dividerConstraints_Fin clamp_Fin)

text \<open>A dragged position lies between bounds that are in order.\<close>

lemma dragged_position_between:
  "h \<le> 0 \<or> 200 \<le> h \<Longrightarrow> between_bounds (Fin h) (dragged_position (Fin h) (Fin x))"
  by (auto simp: dragged_position_Fin between_bounds_Fin)


text \<open>
  In any state of the panel, also one that a resize has left out of bounds, a drag at a
  height of 0 or of at least 200 puts the divider between the bounds again.
\<close>

lemma drag_restores_bounds:
  assumes "reachable s" "containerHeight s = Fin h" "h = 0 \<or> 200 \<le> h"
  shows "divider_within_bounds
           (saveDividerPosition (dragged_position (containerHeight s) (Fin x)) s)"
  using assms(2,3)
  by (auto simp: divider_within_bounds_def saveDividerPosition_def dragged_position_between)




end
